theory Spec2Isabelle
  imports Complex_Main
begin

section \<open>Nova: the chat function and the chat widget\<close>

text \<open>
  The development embeds the two source files of the repository:
  \<^item> \<^verbatim>\<open>supabase/functions/chat/index.ts\<close>, the serverless handler \<^verbatim>\<open>serve\<close>, which
    assembles the conversation for the model, calls the completion endpoint once and
    attaches quick-reply options to the answer;
  \<^item> \<^verbatim>\<open>src/components/Nova/NovaChat.tsx\<close>, the widget with its handlers
    \<^verbatim>\<open>handleResponse\<close>, \<^verbatim>\<open>handleOptionClick\<close> and \<^verbatim>\<open>handleSend\<close>.

  JavaScript strings are modelled as \<^typ>\<open>string\<close>: a character stands for the code unit
  of the same number, so the model covers the texts whose code units are below 256.
  A JSON body may fail to parse, be \<^verbatim>\<open>null\<close> or lack the member that is read; a
  member that is present is taken at its declared TypeScript type.
\<close>

subsection \<open>Strings\<close>

text \<open>
  \<^verbatim>\<open>String.prototype.toLowerCase\<close> on code units below 256: the letters A to Z and the
  Latin-1 capitals (192 to 222, without the multiplication sign 215) move up by 32, every
  other code unit stays.
\<close>

definition toLower :: "char \<Rightarrow> char" where
  "toLower c =
     (let n = of_char c :: nat
      in if (65 \<le> n \<and> n \<le> 90) \<or> (192 \<le> n \<and> n \<le> 222 \<and> n \<noteq> 215)
         then char_of (n + 32) else c)"

definition toLowerCase :: "string \<Rightarrow> string" where
  "toLowerCase s = map toLower s"

text \<open>
  \<^verbatim>\<open>s.includes(t)\<close>: \<open>t\<close> occurs in \<open>s\<close> at some position. The search tries every
  start position from the left.
\<close>

fun starts_with :: "string \<Rightarrow> string \<Rightarrow> bool" where
  "starts_with s [] = True"
| "starts_with [] (y # t) = False"
| "starts_with (x # s) (y # t) = (x = y \<and> starts_with s t)"

fun str_includes :: "string \<Rightarrow> string \<Rightarrow> bool" where
  "str_includes [] t = (t = [])"
| "str_includes (x # s) t = (starts_with (x # s) t \<or> str_includes s t)"

text \<open>
  \<^verbatim>\<open>String.prototype.trim\<close> removes white space and line terminators from both ends;
  below 256 these are the code units 9 to 13, 32 and 160.
\<close>

definition isWhiteSpace :: "char \<Rightarrow> bool" where
  "isWhiteSpace c =
     (let n = of_char c :: nat in (9 \<le> n \<and> n \<le> 13) \<or> n = 32 \<or> n = 160)"

definition trim :: "string \<Rightarrow> string" where
  "trim s = rev (dropWhile isWhiteSpace (rev (dropWhile isWhiteSpace s)))"

text \<open>\<^verbatim>\<open>a || b\<close> on an optional string: \<^verbatim>\<open>undefined\<close> and the empty string are falsy.\<close>

definition or_else :: "string option \<Rightarrow> string \<Rightarrow> string" where
  "or_else a b = (case a of None \<Rightarrow> b | Some s \<Rightarrow> if s = [] then b else s)"

subsection \<open>The data of the chat function\<close>

text \<open>
  \<^verbatim>\<open>interface Message { type: 'user' | 'bot'; content: string; options?: string[] }\<close>.
  The tag arrives as a JSON string and is compared as a string, so it is one here.
\<close>

record Message =
  type :: string
  content :: string
  options :: "string list option"

text \<open>\<^verbatim>\<open>interface RequestBody { message: string; context: Message[] }\<close>\<close>

record RequestBody =
  message :: string
  "context" :: "Message list"

text \<open>An entry of the conversation sent to the model: \<^verbatim>\<open>{ role, content }\<close>.\<close>

record RoleContent =
  role :: string
  rc_content :: string

definition corsHeaders :: "(string \<times> string) list" where
  "corsHeaders =
     [(''Access-Control-Allow-Origin'', ''*''),
      (''Access-Control-Allow-Headers'', ''authorization, x-client-info, apikey, content-type'')]"

definition systemPrompt :: string where
  "systemPrompt =
     ''You are Nova, a flood awareness and emergency response assistant. Your primary goal is to help users with:\<newline>'' @
     ''1. Understanding flood risks and types\<newline>'' @
     ''2. Emergency preparedness\<newline>'' @
     ''3. Local flood alerts and warnings\<newline>'' @
     ''4. Post-flood recovery guidance\<newline>'' @
     ''5. Emergency contacts and resources\<newline>'' @
     ''\<newline>'' @
     ''Keep responses concise, practical, and focused on flood-related information. Always maintain a helpful and reassuring tone.\<newline>'' @
     ''\<newline>'' @
     ''Current location context: Chennai, Tamil Nadu, India\<newline>'' @
     ''Emergency contacts:\<newline>'' @
     ''- Police: 100\<newline>'' @
     ''- Flood Control: 1913\<newline>'' @
     ''- Emergency Services: 108''"

subsection \<open>The conversation sent to the model\<close>

text \<open>
  Lines 46 to 61 of the handler: \<^verbatim>\<open>context.map\<close> builds a new array, \<^verbatim>\<open>unshift\<close> puts
  the system prompt in front of it and \<^verbatim>\<open>push\<close> the current message behind it.
\<close>

definition conversationHistory :: "Message list \<Rightarrow> string \<Rightarrow> RoleContent list" where
  "conversationHistory ctx msg =
     (let mapped = map (\<lambda>m. \<lparr>role = (if type m = ''user'' then ''user'' else ''assistant''),
                              rc_content = content m\<rparr>) ctx;
          unshifted = \<lparr>role = ''system'', rc_content = systemPrompt\<rparr> # mapped
      in unshifted @ [\<lparr>role = ''user'', rc_content = msg\<rparr>])"

subsection \<open>The same lines on arrays in a store\<close>

text \<open>
  JavaScript arrays are objects that are shared and changed in place. To state what
  lines 46 to 61 do to the arrays that exist, the arrays live in a store here: an address
  is a position in the store, and a new array goes to its end.
\<close>

datatype Array = MessageArray "Message list" | EntryArray "RoleContent list"

type_synonym Store = "Array list"

text \<open>
  \<^verbatim>\<open>context.map(msg => ...)\<close>, lines 46 to 49: a new array with one entry for each
  message. The result is \<open>None\<close> when there is no array of messages at the address.
\<close>

definition array_map :: "Store \<Rightarrow> nat \<Rightarrow> (nat \<times> Store) option" where
  "array_map s a =
     (if a < length s
      then (case s ! a of
              MessageArray ms \<Rightarrow>
                Some (length s,
                      s @ [EntryArray
                             (map (\<lambda>m. \<lparr>role = (if type m = ''user'' then ''user''
                                                  else ''assistant''),
                                        rc_content = content m\<rparr>) ms)])
            | EntryArray es \<Rightarrow> None)
      else None)"

text \<open>\<^verbatim>\<open>array.unshift(e)\<close> and \<^verbatim>\<open>array.push(e)\<close> change the array at the address.\<close>

definition unshift :: "Store \<Rightarrow> nat \<Rightarrow> RoleContent \<Rightarrow> Store" where
  "unshift s a e =
     (if a < length s
      then (case s ! a of EntryArray es \<Rightarrow> s[a := EntryArray (e # es)] | MessageArray ms \<Rightarrow> s)
      else s)"

definition push :: "Store \<Rightarrow> nat \<Rightarrow> RoleContent \<Rightarrow> Store" where
  "push s a e =
     (if a < length s
      then (case s ! a of EntryArray es \<Rightarrow> s[a := EntryArray (es @ [e])] | MessageArray ms \<Rightarrow> s)
      else s)"

text \<open>
  Lines 46 to 61 with \<^verbatim>\<open>context\<close> at address \<open>a\<close>: the address of
  \<^verbatim>\<open>conversationHistory\<close> and the store afterwards.
\<close>

definition conversationHistory_in :: "Store \<Rightarrow> nat \<Rightarrow> string \<Rightarrow> (nat \<times> Store) option" where
  "conversationHistory_in s a msg =
     (case array_map s a of
        None \<Rightarrow> None
      | Some (h, s1) \<Rightarrow>
          (let s2 = unshift s1 h \<lparr>role = ''system'', rc_content = systemPrompt\<rparr>;
               s3 = push s2 h \<lparr>role = ''user'', rc_content = msg\<rparr>
           in Some (h, s3)))"

text \<open>The entries of the array built, and the part of the store that was there before.\<close>

definition built :: "(nat \<times> Store) option \<Rightarrow> RoleContent list option" where
  "built r =
     (case r of
        None \<Rightarrow> None
      | Some (h, s) \<Rightarrow>
          (if h < length s
           then (case s ! h of EntryArray es \<Rightarrow> Some es | MessageArray ms \<Rightarrow> None)
           else None))"

definition kept :: "Store \<Rightarrow> (nat \<times> Store) option \<Rightarrow> Store option" where
  "kept s r = (case r of None \<Rightarrow> None | Some (h, s') \<Rightarrow> Some (take (length s) s'))"

subsection \<open>The quick-reply options and the answer\<close>

text \<open>Lines 86 to 105: the default options, replaced by the first keyword that matches.\<close>

definition options_for :: "string \<Rightarrow> string list" where
  "options_for msg =
     (if str_includes (toLowerCase msg) ''flood risk''
      then [''How can I prepare?'', ''Show emergency contacts'', ''Get local alerts'']
      else if str_includes (toLowerCase msg) ''emergency''
      then [''Call emergency services'', ''Evacuation guidelines'', ''Find shelter'']
      else [''Tell me more'', ''What should I do next?'', ''Back to main menu''])"

text \<open>Lines 107 to 111: the bot message built from the model's text.\<close>

definition aiMessage :: "string \<Rightarrow> string \<Rightarrow> Message" where
  "aiMessage msg modelText =
     \<lparr>type = ''bot'', content = modelText, options = Some (options_for msg)\<rparr>"

subsection \<open>The completion endpoint as the handler sees it\<close>

text \<open>
  The body of a non-success answer is read through \<^verbatim>\<open>errorData.error?.message\<close>: the
  \<^verbatim>\<open>error\<close> member may be missing, and so may its \<^verbatim>\<open>message\<close>.
\<close>

datatype ErrorObject = ErrorObject (error_message: "string option")

datatype ErrorData = ErrorData (error_object: "ErrorObject option")

text \<open>
  The body of a success answer is read through \<^verbatim>\<open>data.choices[0].message.content\<close>;
  \<open>choices\<close> may be missing, and an entry of it stands for the \<^verbatim>\<open>message.content\<close> of
  that choice.
\<close>

datatype Completion = Completion (choices: "string list option")

text \<open>
  What \<^verbatim>\<open>await deepseekResponse.json()\<close> does with the body of an answer: it rejects
  with an error of the given message when the body is not JSON, and resolves with
  \<^verbatim>\<open>null\<close> or with the value parsed otherwise.
\<close>

datatype 'a JsonBody = NotJson string | JsonNull | JsonValue 'a

text \<open>The answer of the endpoint: \<^verbatim>\<open>ok\<close> false or true, and its body.\<close>

datatype DeepseekResponse = NotOk "ErrorData JsonBody" | Ok "Completion JsonBody"

text \<open>\<^verbatim>\<open>fetch\<close> either rejects with an error of the given message or resolves with an answer.\<close>

datatype FetchOutcome = FetchRejected string | Fetched DeepseekResponse

record FetchRequest =
  url :: string
  fetch_method :: string
  fetch_headers :: "(string \<times> string) list"
  model :: string
  body_messages :: "RoleContent list"
  temperature :: rat
  max_tokens :: nat

text \<open>
  What the handler reads from its surroundings: the environment variable
  \<^verbatim>\<open>DEEPSEEK_API_KEY\<close> (possibly unset) and the network behind \<^verbatim>\<open>fetch\<close>.
\<close>

record ServerEnv =
  api_key :: "string option"
  fetch :: "FetchRequest \<Rightarrow> FetchOutcome"

datatype Payload =
    PText string
  | PContext "Message list"
  | PNotArray
  | PNull
  | PErrorData ErrorData
  | PData Completion

datatype ConsoleEntry = Log string Payload | LogError string Payload

text \<open>A JSON object written by \<^verbatim>\<open>JSON.stringify\<close>, as its members in order.\<close>

datatype Json = JString string | JStrings "string list"

record Response =
  status :: nat
  headers :: "(string \<times> string) list"
  body :: "(string \<times> Json) list option"

text \<open>
  What \<^verbatim>\<open>await req.json()\<close> and the destructuring of line 41 do with the body of a
  request: they throw an error of the given message (the body is not JSON, or is
  \<^verbatim>\<open>null\<close>), or they yield a message and a context. The context may be something
  without an array's \<^verbatim>\<open>map\<close> (missing, say), so that \<^verbatim>\<open>context.map\<close> on line 46 throws
  the \<^verbatim>\<open>TypeError\<close> whose message is the second argument of \<open>ContextNotArray\<close>. The
  message is a string, as the interface declares it.
\<close>

datatype RequestJson =
    Unparseable string
  | ContextNotArray string string
  | WellFormed RequestBody

record HttpRequest =
  "method" :: string
  json :: RequestJson

text \<open>The result of one run of the handler: its response and the effects it had.\<close>

record Served =
  response :: Response
  fetched :: "FetchRequest list"
  console :: "ConsoleEntry list"

subsection \<open>The handler\<close>

definition fetchRequest :: "ServerEnv \<Rightarrow> RoleContent list \<Rightarrow> FetchRequest" where
  "fetchRequest env history =
     \<lparr>url = ''https://api.deepseek.com/v1/chat/completions'',
      fetch_method = ''POST'',
      fetch_headers =
        [(''Content-Type'', ''application/json''),
         (''Authorization'',
          ''Bearer '' @ (case api_key env of None \<Rightarrow> ''undefined'' | Some k \<Rightarrow> k))],
      model = ''deepseek-chat'',
      body_messages = history,
      temperature = 7 / 10,
      max_tokens = 1000\<rparr>"

text \<open>
  Reading a member of \<^verbatim>\<open>null\<close> or \<^verbatim>\<open>undefined\<close> throws a \<^verbatim>\<open>TypeError\<close>; this is
  its message in the V8 engine that runs the function.
\<close>

definition cannotRead :: "string \<Rightarrow> string \<Rightarrow> string" where
  "cannotRead what member =
     ''Cannot read properties of '' @ what @ '' (reading '' @ [CHR 0x27] @ member @ [CHR 0x27] @ '')''"

text \<open>
  Reading \<^verbatim>\<open>data.choices[0].message\<close> when \<^verbatim>\<open>choices\<close> is empty.
\<close>

definition choicesTypeError :: string where
  "choicesTypeError = cannotRead ''undefined'' ''message''"

text \<open>
  The body of the \<^verbatim>\<open>try\<close> block, lines 41 to 115. The result is \<open>Inl\<close> with the message
  of the error thrown, or \<open>Inr\<close> with the bot message, together with the requests sent to
  the endpoint and the console output. The first function is the block from line 45 on,
  for a request whose body has a message and an array as context.
\<close>

definition try_block_body ::
  "RequestBody \<Rightarrow> ServerEnv \<Rightarrow> (string + Message) \<times> FetchRequest list \<times> ConsoleEntry list" where
  "try_block_body b env =
     (let msg = message b;
          ctx = context b;
          out = [Log ''Received message:'' (PText msg), Log ''Context:'' (PContext ctx)];
          request = fetchRequest env (conversationHistory ctx msg)
      in case fetch env request of
           FetchRejected e \<Rightarrow> (Inl e, [request], out)
         | Fetched (NotOk (NotJson e)) \<Rightarrow> (Inl e, [request], out)
         | Fetched (NotOk JsonNull) \<Rightarrow>
             (Inl (cannotRead ''null'' ''error''), [request],
              out @ [LogError ''DeepSeek API error:'' PNull])
         | Fetched (NotOk (JsonValue errorData)) \<Rightarrow>
             (Inl (''DeepSeek API error: '' @
                   or_else (case error_object errorData of
                              None \<Rightarrow> None
                            | Some e \<Rightarrow> error_message e) ''Unknown error''),
              [request],
              out @ [LogError ''DeepSeek API error:'' (PErrorData errorData)])
         | Fetched (Ok (NotJson e)) \<Rightarrow> (Inl e, [request], out)
         | Fetched (Ok JsonNull) \<Rightarrow>
             (Inl (cannotRead ''null'' ''choices''), [request],
              out @ [Log ''DeepSeek response:'' PNull])
         | Fetched (Ok (JsonValue data)) \<Rightarrow>
             (case choices data of
                None \<Rightarrow> (Inl (cannotRead ''undefined'' ''0''), [request],
                         out @ [Log ''DeepSeek response:'' (PData data)])
              | Some [] \<Rightarrow> (Inl choicesTypeError, [request],
                            out @ [Log ''DeepSeek response:'' (PData data)])
              | Some (modelText # _) \<Rightarrow>
                  (Inr (aiMessage msg modelText), [request],
                   out @ [Log ''DeepSeek response:'' (PData data)])))"

definition try_block ::
  "HttpRequest \<Rightarrow> ServerEnv \<Rightarrow> (string + Message) \<times> FetchRequest list \<times> ConsoleEntry list" where
  "try_block req env =
     (case json req of
        Unparseable e \<Rightarrow> (Inl e, [], [])
      | ContextNotArray msg e \<Rightarrow>
          (Inl e, [], [Log ''Received message:'' (PText msg), Log ''Context:'' PNotArray])
      | WellFormed b \<Rightarrow> try_block_body b env)"

definition stringify_Message :: "Message \<Rightarrow> (string \<times> Json) list" where
  "stringify_Message m =
     [(''type'', JString (type m)), (''content'', JString (content m))] @
     (case options m of None \<Rightarrow> [] | Some os \<Rightarrow> [(''options'', JStrings os)])"

text \<open>Lines 35 to 126: the preflight answer, the \<^verbatim>\<open>try\<close> block and the \<^verbatim>\<open>catch\<close> block.\<close>

definition serve :: "HttpRequest \<Rightarrow> ServerEnv \<Rightarrow> Served" where
  "serve req env =
     (if method req = ''OPTIONS''
      then \<lparr>response = \<lparr>status = 200, headers = corsHeaders, body = None\<rparr>,
            fetched = [], console = []\<rparr>
      else case try_block req env of
             (Inr ai, sent, out) \<Rightarrow>
               \<lparr>response =
                  \<lparr>status = 200,
                   headers = corsHeaders @ [(''Content-Type'', ''application/json'')],
                   body = Some (stringify_Message ai)\<rparr>,
                fetched = sent, console = out\<rparr>
           | (Inl e, sent, out) \<Rightarrow>
               \<lparr>response =
                  \<lparr>status = 500,
                   headers = corsHeaders @ [(''Content-Type'', ''application/json'')],
                   body = Some [(''error'', JString ''Failed to get response. Please try again.''),
                                (''details'', JString e)]\<rparr>,
                fetched = sent,
                console = out @ [LogError ''Error in chat function:'' (PText e)]\<rparr>)"

subsection \<open>The data of the widget\<close>

text \<open>
  \<^verbatim>\<open>supabase.auth.getSession()\<close> answers in one of three shapes: a session (of which the
  widget reads \<^verbatim>\<open>session.user.id\<close>), no session and no error, or an error.
\<close>

datatype SessionResult = SessionFound string | SessionMissing | SessionFailed string



text \<open>A row of the table \<^verbatim>\<open>chat_messages\<close>; rows of the bot carry no \<^verbatim>\<open>user_id\<close>.\<close>

record Row =
  row_content :: string
  row_type :: string
  user_id :: "string option"

record Toast =
  variant :: "string option"
  description :: string
  duration :: nat

text \<open>The answer of \<^verbatim>\<open>supabase.functions.invoke\<close>: \<^verbatim>\<open>{ data, error }\<close>.\<close>

record FunctionsResponse =
  data :: "Message option"
  error :: "string option"

text \<open>
  The services around the widget. \<open>insert\<close> answers with the \<^verbatim>\<open>error\<close> of the insertion
  of a row, \<open>None\<close> when the row was written.
\<close>

record ClientEnv =
  getSession :: SessionResult
  insert :: "Row \<Rightarrow> string option"
  invoke :: "RequestBody \<Rightarrow> FunctionsResponse"

text \<open>
  The state of the widget that the handlers read and write (\<open>messages\<close>, \<open>input\<close>,
  \<open>isLoading\<close>) and the traces of their effects: the toasts shown, the rows of the table,
  the bodies passed to \<^verbatim>\<open>functions.invoke\<close> and the errors written to the console.
\<close>

record State =
  messages :: "Message list"
  input :: string
  isLoading :: bool
  toasts :: "Toast list"
  chat_messages :: "Row list"
  invoked :: "RequestBody list"
  logged :: "string list"

definition initialMessages :: "Message list" where
  "initialMessages =
     [\<lparr>type = ''bot'',
       content = ''Hi! I'' @ [CHR 0x27] @ ''m Nova, your flood awareness assistant. How can I help you today?'',
       options = Some [''Learn about flood risks'',
                       ''Check emergency preparedness'',
                       ''Get local flood alerts'',
                       ''Post-flood recovery help'',
                       ''Set my location'']\<rparr>]"

definition initialState :: State where
  "initialState =
     \<lparr>messages = initialMessages, input = [], isLoading = False, toasts = [],
      chat_messages = [], invoked = [], logged = []\<rparr>"

text \<open>\<^verbatim>\<open>xs.slice(-5)\<close>: the last five elements, or all of them when there are fewer.\<close>

definition slice_last5 :: "'a list \<Rightarrow> 'a list" where
  "slice_last5 xs = drop (length xs - 5) xs"

definition signInToast :: Toast where
  "signInToast =
     \<lparr>variant = Some ''destructive'', description = ''Please sign in to send messages.'',
      duration = 3000\<rparr>"

definition failedToast :: Toast where
  "failedToast =
     \<lparr>variant = Some ''destructive'',
      description = ''Failed to get response. Please try again.'', duration = 3000\<rparr>"

definition correctedToast :: Toast where
  "correctedToast =
     \<lparr>variant = None,
      description = ''I'' @ [CHR 0x27] @ ''ve corrected some spelling to better understand your question.'',
      duration = 3000\<rparr>"

text \<open>
  Reading \<^verbatim>\<open>aiMessage.content\<close> when \<^verbatim>\<open>response.data\<close> is \<^verbatim>\<open>null\<close> throws a
  \<^verbatim>\<open>TypeError\<close> with this message.
\<close>

definition dataTypeError :: string where
  "dataTypeError =
     ''Cannot read properties of null (reading '' @ [CHR 0x27] @ ''content'' @ [CHR 0x27] @ '')''"

subsection \<open>The handlers of the widget\<close>

text \<open>The \<^verbatim>\<open>catch\<close> block and the \<^verbatim>\<open>finally\<close> block of \<^verbatim>\<open>handleResponse\<close>.\<close>

definition catch_block :: "string \<Rightarrow> State \<Rightarrow> State" where
  "catch_block e st = st\<lparr>logged := logged st @ [e], toasts := toasts st @ [failedToast]\<rparr>"

definition finally_block :: "State \<Rightarrow> State" where
  "finally_block st = st\<lparr>isLoading := False\<rparr>"

text \<open>
  \<^verbatim>\<open>handleResponse\<close>, lines 78 to 143, run from its first to its last statement. The
  context sent is cut from \<open>captured\<close>, the value of \<^verbatim>\<open>messages\<close> in the render whose
  handler runs; the updates \<^verbatim>\<open>setMessages(prev => ...)\<close> work on the state of the moment.
\<close>

definition handleResponse :: "Message list \<Rightarrow> State \<Rightarrow> ClientEnv \<Rightarrow> string \<Rightarrow> State" where
  "handleResponse captured st0 env userMessage =
     (let st = st0\<lparr>isLoading := True\<rparr>
      in finally_block
        (case getSession env of
           SessionFailed e \<Rightarrow> catch_block e st
         | SessionMissing \<Rightarrow> st\<lparr>toasts := toasts st @ [signInToast]\<rparr>
         | SessionFound uid \<Rightarrow>
             (let userRow = \<lparr>row_content = userMessage, row_type = ''user'', user_id = Some uid\<rparr>
              in case insert env userRow of
                   Some e \<Rightarrow> catch_block e st
                 | None \<Rightarrow>
                     (let st1 = st\<lparr>chat_messages := chat_messages st @ [userRow]\<rparr>;
                          request = \<lparr>message = userMessage, context = slice_last5 captured\<rparr>;
                          response = invoke env request;
                          st2 = st1\<lparr>invoked := invoked st1 @ [request]\<rparr>
                      in case error response of
                           Some e \<Rightarrow> catch_block e st2
                         | None \<Rightarrow>
                             (case data response of
                                None \<Rightarrow> catch_block dataTypeError st2
                              | Some ai \<Rightarrow>
                                  (let botRow = \<lparr>row_content = content ai, row_type = ''bot'',
                                                 user_id = None\<rparr>
                                   in case insert env botRow of
                                        Some e \<Rightarrow> catch_block e st2
                                      | None \<Rightarrow>
                                          st2\<lparr>chat_messages := chat_messages st2 @ [botRow],
                                              messages := messages st2 @
                                                [\<lparr>type = ''user'', content = userMessage,
                                                  options = None\<rparr>, ai]\<rparr>))))))"

text \<open>\<^verbatim>\<open>handleOptionClick\<close>, lines 145 to 148.\<close>

definition handleOptionClick :: "State \<Rightarrow> ClientEnv \<Rightarrow> string \<Rightarrow> State" where
  "handleOptionClick st env option =
     handleResponse (messages st)
       (st\<lparr>messages := messages st @ [\<lparr>type = ''user'', content = option, options = None\<rparr>]\<rparr>)
       env option"

text \<open>
  \<^verbatim>\<open>handleSend\<close>, lines 150 to 163. The function \<^verbatim>\<open>autocorrect\<close> is imported from a
  module outside the two source files and is a parameter here.
\<close>

definition handleSend :: "(string \<Rightarrow> string) \<Rightarrow> State \<Rightarrow> ClientEnv \<Rightarrow> State" where
  "handleSend autocorrect st env =
     (if trim (input st) = [] \<or> isLoading st then st
      else
        (let correctedInput = autocorrect (input st);
             st1 = (if correctedInput \<noteq> input st
                    then st\<lparr>toasts := toasts st @ [correctedToast]\<rparr> else st);
             st2 = st1\<lparr>input := []\<rparr>
         in handleResponse (messages st) st2 env correctedInput))"

subsection \<open>The widget served by the chat function\<close>

text \<open>
  \<^verbatim>\<open>functions.invoke('chat', { body })\<close> posts the body to the handler above. The client
  library answers a status outside 200 to 299 with its error
  and hands the parsed JSON of any other answer over as \<^verbatim>\<open>data\<close>.
\<close>

definition parse_Message :: "(string \<times> Json) list \<Rightarrow> Message option" where
  "parse_Message members =
     (case (map_of members ''type'', map_of members ''content'') of
        (Some (JString t), Some (JString c)) \<Rightarrow>
          Some \<lparr>type = t, content = c,
                options = (case map_of members ''options'' of
                             Some (JStrings os) \<Rightarrow> Some os
                           | _ \<Rightarrow> None)\<rparr>
      | _ \<Rightarrow> None)"

definition invoke_chat :: "ServerEnv \<Rightarrow> RequestBody \<Rightarrow> FunctionsResponse" where
  "invoke_chat senv request =
     (let r = response (serve \<lparr>method = ''POST'', json = WellFormed request\<rparr> senv)
      in if 200 \<le> status r \<and> status r \<le> 299
         then \<lparr>data = (case body r of None \<Rightarrow> None | Some members \<Rightarrow> parse_Message members),
               error = None\<rparr>
         else \<lparr>data = None, error = Some ''Edge Function returned a non-2xx status code''\<rparr>)"

subsection \<open>Notions of the specification\<close>

text \<open>
  The specification speaks of a message that contains a keyword in any case: some piece
  of the message equals the keyword once letter case is ignored.
\<close>

definition contains_any_case :: "string \<Rightarrow> string \<Rightarrow> bool" where
  "contains_any_case s t =
     (\<exists>ps mid ss. s = ps @ mid @ ss \<and> map toLower mid = map toLower t)"

text \<open>An answer whose JSON body carries nothing but the generic notice.\<close>

definition generic_only :: "Response \<Rightarrow> bool" where
  "generic_only r =
     (case body r of
        None \<Rightarrow> True
      | Some members \<Rightarrow>
          list_all (\<lambda>(k, v). v = JString ''Failed to get response. Please try again.'') members)"

text \<open>
  A step from \<open>st\<close> to \<open>st'\<close> that only appends to the message log and to the table, and
  appends only entries tagged \<^verbatim>\<open>user\<close> or \<^verbatim>\<open>bot\<close>.
\<close>

definition appends_user_or_bot :: "State \<Rightarrow> State \<Rightarrow> bool" where
  "appends_user_or_bot st st' =
     (take (length (messages st)) (messages st') = messages st
      \<and> list_all (\<lambda>m. type m = ''user'' \<or> type m = ''bot'')
           (drop (length (messages st)) (messages st'))
      \<and> take (length (chat_messages st)) (chat_messages st') = chat_messages st
      \<and> list_all (\<lambda>r. row_type r = ''user'' \<or> row_type r = ''bot'')
           (drop (length (chat_messages st)) (chat_messages st')))"

text \<open>
  A turn succeeds when there is a session, both insertions are accepted and the function
  call answers with the bot message \<open>ai\<close> and no error.
\<close>

definition turn_succeeds :: "ClientEnv \<Rightarrow> Message list \<Rightarrow> string \<Rightarrow> Message \<Rightarrow> bool" where
  "turn_succeeds env captured userMessage ai =
     (case getSession env of
        SessionFound uid \<Rightarrow>
          insert env \<lparr>row_content = userMessage, row_type = ''user'', user_id = Some uid\<rparr> = None
          \<and> invoke env \<lparr>message = userMessage, context = slice_last5 captured\<rparr> =
              \<lparr>data = Some ai, error = None\<rparr>
          \<and> insert env \<lparr>row_content = content ai, row_type = ''bot'', user_id = None\<rparr> = None
      | _ \<Rightarrow> False)"

subsection \<open>Sample surroundings\<close>

definition sampleErrorData :: ErrorData where
  "sampleErrorData = ErrorData (Some (ErrorObject (Some ''Insufficient Balance'')))"

definition failingEndpoint :: ServerEnv where
  "failingEndpoint =
     \<lparr>api_key = Some ''sk-1'', fetch = (\<lambda>_. Fetched (NotOk (JsonValue sampleErrorData)))\<rparr>"

definition answeringEndpoint :: ServerEnv where
  "answeringEndpoint =
     \<lparr>api_key = None,
      fetch = (\<lambda>_. Fetched (Ok (JsonValue (Completion (Some [''Move to higher ground.''])))))\<rparr>"

definition signedIn :: "ServerEnv \<Rightarrow> ClientEnv" where
  "signedIn senv =
     \<lparr>getSession = SessionFound ''user-1'', insert = (\<lambda>_. None), invoke = invoke_chat senv\<rparr>"

definition badGateway :: ServerEnv where
  "badGateway =
     \<lparr>api_key = Some ''sk-1'',
      fetch = (\<lambda>_. Fetched (NotOk (NotJson ''Unexpected token < in JSON at position 0'')))\<rparr>"



definition sampleRequest :: HttpRequest where
  "sampleRequest =
     \<lparr>method = ''POST'', json = WellFormed \<lparr>message = ''hello'', context = initialMessages\<rparr>\<rparr>"

definition sampleAutocorrect :: "string \<Rightarrow> string" where
  "sampleAutocorrect s = (if s = ''flod risks'' then ''flood risks'' else s)"

definition sampleHistory :: "Message list" where
  "sampleHistory =
     [\<lparr>type = ''bot'', content = ''How can I help?'', options = Some [''Set my location'']\<rparr>,
      \<lparr>type = ''user'', content = ''Is my street at risk?'', options = None\<rparr>]"

definition sampleStore :: Store where
  "sampleStore = [MessageArray initialMessages, MessageArray sampleHistory, EntryArray []]"

section \<open>Properties of the chat function\<close>

subsection \<open>The conversation sent to the model\<close>

lemma slice_last5_length: "length (slice_last5 xs) \<le> 5"
  by (simp add: slice_last5_def)

lemma conversationHistory_empty:
  "conversationHistory [] ''What are flood risks?'' =
     [\<lparr>role = ''system'', rc_content = systemPrompt\<rparr>,
      \<lparr>role = ''user'', rc_content = ''What are flood risks?''\<rparr>]"
  by (simp add: conversationHistory_def)

text \<open>
  Claim C1. For every history \<open>H\<close> and every new message \<open>m\<close> the conversation built has
  \<open>length H + 2\<close> entries. The first is the system prompt with role \<^verbatim>\<open>system\<close>, the last
  has role \<^verbatim>\<open>user\<close> and content \<open>m\<close>, and the entry at position \<open>i + 1\<close> carries the
  content of the \<open>i\<close>-th message of \<open>H\<close>, with role \<^verbatim>\<open>user\<close> for a message of the user
  and \<^verbatim>\<open>assistant\<close> for a message of the bot. An entry has no option list. The
  statement does not need the bound of five messages; the widget never sends more
  (\<open>slice_last5_length\<close>).
\<close>

theorem conversationHistory_shape:
  "length (conversationHistory H m) = length H + 2
   \<and> hd (conversationHistory H m) = \<lparr>role = ''system'', rc_content = systemPrompt\<rparr>
   \<and> last (conversationHistory H m) = \<lparr>role = ''user'', rc_content = m\<rparr>
   \<and> (\<forall>i<length H.
        rc_content (conversationHistory H m ! Suc i) = content (H ! i)
        \<and> (type (H ! i) = ''user'' \<longrightarrow> role (conversationHistory H m ! Suc i) = ''user'')
        \<and> (type (H ! i) = ''bot'' \<longrightarrow> role (conversationHistory H m ! Suc i) = ''assistant''))"
  by (simp add: conversationHistory_def nth_append)

theorem conversationHistory_shape_witness:
  "length sampleHistory \<le> 5
   \<and> length (conversationHistory sampleHistory ''What are flood risks?'') = 4
   \<and> hd (conversationHistory sampleHistory ''What are flood risks?'') =
       \<lparr>role = ''system'', rc_content = systemPrompt\<rparr>
   \<and> last (conversationHistory sampleHistory ''What are flood risks?'') =
       \<lparr>role = ''user'', rc_content = ''What are flood risks?''\<rparr>
   \<and> conversationHistory sampleHistory ''What are flood risks?'' ! 1 =
       \<lparr>role = ''assistant'', rc_content = ''How can I help?''\<rparr>
   \<and> conversationHistory sampleHistory ''What are flood risks?'' ! 2 =
       \<lparr>role = ''user'', rc_content = ''Is my street at risk?''\<rparr>"
proof -
  let ?c = "conversationHistory sampleHistory ''What are flood risks?''"
  note shape = conversationHistory_shape [of sampleHistory "''What are flood risks?''"]
  have len: "length sampleHistory = 2" by (simp add: sampleHistory_def)
  have t0: "type (sampleHistory ! 0) = ''bot''"
    and c0: "content (sampleHistory ! 0) = ''How can I help?''"
    and t1: "type (sampleHistory ! 1) = ''user''"
    and c1: "content (sampleHistory ! 1) = ''Is my street at risk?''"
    by (simp_all add: sampleHistory_def)
  from shape len have i0: "rc_content (?c ! Suc 0) = content (sampleHistory ! 0)
      \<and> (type (sampleHistory ! 0) = ''bot'' \<longrightarrow> role (?c ! Suc 0) = ''assistant'')"
    by simp
  from shape len have i1: "rc_content (?c ! Suc 1) = content (sampleHistory ! 1)
      \<and> (type (sampleHistory ! 1) = ''user'' \<longrightarrow> role (?c ! Suc 1) = ''user'')"
    by simp
  have e1: "?c ! 1 = \<lparr>role = ''assistant'', rc_content = ''How can I help?''\<rparr>"
    using i0 t0 c0 by (cases "?c ! 1") simp
  have e2: "?c ! 2 = \<lparr>role = ''user'', rc_content = ''Is my street at risk?''\<rparr>"
    using i1 t1 c1 by (cases "?c ! 2") (simp add: numeral_2_eq_2)
  from shape len e1 e2 show ?thesis by simp
qed

subsection \<open>The quick-reply options\<close>

lemma starts_with_iff: "starts_with s t \<longleftrightarrow> (\<exists>ss. s = t @ ss)"
  by (induction s t rule: starts_with.induct) auto

lemma str_includes_iff: "str_includes s t \<longleftrightarrow> (\<exists>ps ss. s = ps @ t @ ss)"
proof (induction s)
  case Nil
  then show ?case by auto
next
  case (Cons x s)
  show ?case
  proof
    assume "str_includes (x # s) t"
    then consider "starts_with (x # s) t" | "str_includes s t" by auto
    then show "\<exists>ps ss. x # s = ps @ t @ ss"
    proof cases
      case 1
      then obtain ss where "x # s = t @ ss" by (auto simp: starts_with_iff)
      then have "x # s = [] @ t @ ss" by simp
      then show ?thesis by blast
    next
      case 2
      then obtain ps ss where "s = ps @ t @ ss" using Cons.IH by auto
      then have "x # s = (x # ps) @ t @ ss" by simp
      then show ?thesis by blast
    qed
  next
    assume "\<exists>ps ss. x # s = ps @ t @ ss"
    then obtain ps ss where eq: "x # s = ps @ t @ ss" by auto
    show "str_includes (x # s) t"
    proof (cases ps)
      case Nil
      with eq have "starts_with (x # s) t" by (auto simp: starts_with_iff)
      then show ?thesis by simp
    next
      case (Cons p ps')
      with eq have "s = ps' @ t @ ss" by simp
      then have "str_includes s t" using Cons.IH by blast
      then show ?thesis by simp
    qed
  qed
qed

lemma str_includes_map:
  "str_includes (map f s) t \<longleftrightarrow> (\<exists>ps mid ss. s = ps @ mid @ ss \<and> map f mid = t)"
proof
  assume "str_includes (map f s) t"
  then obtain ps ss where "map f s = ps @ t @ ss" by (auto simp: str_includes_iff)
  then obtain us vs where us: "s = us @ vs" "ps = map f us" "t @ ss = map f vs"
    by (auto simp: map_eq_append_conv)
  from us(3) obtain b c where "vs = b @ c" "map f b = t"
    by (auto simp: append_eq_map_conv)
  with us(1) have "s = us @ b @ c \<and> map f b = t" by simp
  then show "\<exists>ps mid ss. s = ps @ mid @ ss \<and> map f mid = t" by blast
next
  assume "\<exists>ps mid ss. s = ps @ mid @ ss \<and> map f mid = t"
  then obtain ps mid ss where "s = ps @ mid @ ss" "map f mid = t" by auto
  then have "map f s = map f ps @ t @ map f ss" by simp
  then show "str_includes (map f s) t" unfolding str_includes_iff by blast
qed

lemma lower_flood_risk: "map toLower ''flood risk'' = ''flood risk''"
  by code_simp

lemma lower_emergency: "map toLower ''emergency'' = ''emergency''"
  by code_simp

text \<open>The test of the handler is the containment of the specification.\<close>

lemma includes_flood_risk:
  "str_includes (toLowerCase s) ''flood risk'' = contains_any_case s ''flood risk''"
  unfolding toLowerCase_def contains_any_case_def str_includes_map lower_flood_risk ..

lemma includes_emergency:
  "str_includes (toLowerCase s) ''emergency'' = contains_any_case s ''emergency''"
  unfolding toLowerCase_def contains_any_case_def str_includes_map lower_emergency ..

text \<open>The examples of the specification.\<close>

lemma options_for_examples:
  "options_for ''EMERGENCY situation'' =
     [''Call emergency services'', ''Evacuation guidelines'', ''Find shelter'']"
  "options_for ''hello'' = [''Tell me more'', ''What should I do next?'', ''Back to main menu'']"
  "options_for ''Flood Risk near me'' =
     [''How can I prepare?'', ''Show emergency contacts'', ''Get local alerts'']"
  by code_simp+

text \<open>
  Claim C2. For every user message and every text of the model, the answer is a bot
  message with that text as content. Its options are the flood-risk options when the user
  message contains "flood risk" in any case, otherwise the emergency options when it
  contains "emergency" in any case, otherwise the default options. A message that contains
  both keywords gets the flood-risk options.
\<close>

theorem reply_options:
  "aiMessage userMessage modelText =
     \<lparr>type = ''bot'', content = modelText,
      options = Some
        (if contains_any_case userMessage ''flood risk''
         then [''How can I prepare?'', ''Show emergency contacts'', ''Get local alerts'']
         else if contains_any_case userMessage ''emergency''
         then [''Call emergency services'', ''Evacuation guidelines'', ''Find shelter'']
         else [''Tell me more'', ''What should I do next?'', ''Back to main menu''])\<rparr>
   \<and> (contains_any_case userMessage ''flood risk'' \<and> contains_any_case userMessage ''emergency''
        \<longrightarrow> options (aiMessage userMessage modelText) =
            Some [''How can I prepare?'', ''Show emergency contacts'', ''Get local alerts''])"
  unfolding aiMessage_def options_for_def includes_flood_risk includes_emergency
  by simp

theorem reply_options_witness:
  "contains_any_case ''Is there a FLOOD RISK? Emergency!'' ''flood risk''
   \<and> contains_any_case ''Is there a FLOOD RISK? Emergency!'' ''emergency''
   \<and> options (aiMessage ''Is there a FLOOD RISK? Emergency!'' ''Stay safe.'') =
       Some [''How can I prepare?'', ''Show emergency contacts'', ''Get local alerts'']"
proof -
  have "str_includes (toLowerCase ''Is there a FLOOD RISK? Emergency!'') ''flood risk''"
    by code_simp
  then have a: "contains_any_case ''Is there a FLOOD RISK? Emergency!'' ''flood risk''"
    by (simp only: includes_flood_risk)
  have "str_includes (toLowerCase ''Is there a FLOOD RISK? Emergency!'') ''emergency''"
    by code_simp
  then have b: "contains_any_case ''Is there a FLOOD RISK? Emergency!'' ''emergency''"
    by (simp only: includes_emergency)
  from a b reply_options [of "''Is there a FLOOD RISK? Emergency!''" "''Stay safe.''"]
  show ?thesis by blast
qed

subsection \<open>Errors of the handler\<close>

lemma sample_thrown:
  "fst (try_block sampleRequest failingEndpoint) = Inl ''DeepSeek API error: Insufficient Balance''"
  by (simp add: try_block_def try_block_body_def Let_def sampleRequest_def failingEndpoint_def sampleErrorData_def
      or_else_def)

lemma sampleRequest_method: "method sampleRequest \<noteq> ''OPTIONS''"
  by (simp add: sampleRequest_def)

text \<open>
  Claim C3, as the specification states it: the JSON body of an error answer carries
  only the generic notice. The handler does otherwise: when the endpoint refuses a request
  with the message "Insufficient Balance", the member \<^verbatim>\<open>details\<close> of the body hands that
  message to the client.
\<close>

theorem error_body_details_counterexample:
  "\<not> generic_only (response (serve sampleRequest failingEndpoint))
   \<and> map_of (the (body (response (serve sampleRequest failingEndpoint)))) ''details'' =
       Some (JString ''DeepSeek API error: Insufficient Balance'')"
  by (simp add: generic_only_def serve_def try_block_def try_block_body_def Let_def sampleRequest_def
      failingEndpoint_def sampleErrorData_def or_else_def)

text \<open>
  Claim C3, amended. When an error with message \<open>e\<close> is thrown while a request is
  handled, whatever statement throws it, the answer has status 500 and a JSON body of two
  members: \<^verbatim>\<open>error\<close>, the generic notice, and \<^verbatim>\<open>details\<close>, the message \<open>e\<close> of the
  error caught.
\<close>

theorem caught_error_body:
  assumes "fst (try_block req env) = Inl e" and "method req \<noteq> ''OPTIONS''"
  shows "status (response (serve req env)) = 500
       \<and> body (response (serve req env)) =
           Some [(''error'', JString ''Failed to get response. Please try again.''),
                 (''details'', JString e)]"
  using assms by (cases "try_block req env") (auto simp: serve_def)

theorem caught_error_body_witness:
  "fst (try_block sampleRequest failingEndpoint) = Inl ''DeepSeek API error: Insufficient Balance''
   \<and> method sampleRequest \<noteq> ''OPTIONS''
   \<and> status (response (serve sampleRequest failingEndpoint)) = 500
   \<and> body (response (serve sampleRequest failingEndpoint)) =
           Some [(''error'', JString ''Failed to get response. Please try again.''),
                 (''details'', JString ''DeepSeek API error: Insufficient Balance'')]"
proof -
  from caught_error_body [OF sample_thrown sampleRequest_method] sample_thrown sampleRequest_method
  show ?thesis by simp
qed

lemma badGateway_fetch:
  "fetch badGateway request = Fetched (NotOk (NotJson ''Unexpected token < in JSON at position 0''))"
  by (simp add: badGateway_def)

text \<open>
  Claim C6, as the specification states it: every answer without success makes the
  handler fail with "DeepSeek API error: " and the error message of the endpoint, or
  "Unknown error" when the body has none. The handler does otherwise when the body of the
  answer is not JSON (the page of a gateway, say): \<^verbatim>\<open>await deepseekResponse.json()\<close> on
  line 78 throws, and the error caught carries the message of the parser.
\<close>

theorem upstream_error_not_json_counterexample:
  "fetch badGateway (fetchRequest badGateway (conversationHistory initialMessages ''hello'')) =
     Fetched (NotOk (NotJson ''Unexpected token < in JSON at position 0''))
   \<and> fst (try_block sampleRequest badGateway) = Inl ''Unexpected token < in JSON at position 0''
   \<and> fst (try_block sampleRequest badGateway) \<noteq> Inl ''DeepSeek API error: Unknown error''"
  by (simp add: try_block_def try_block_body_def Let_def sampleRequest_def badGateway_fetch)

text \<open>
  Claim C6, amended. When the endpoint answers a request without success, the answer of
  the handler has status 500 and exactly one request went to the endpoint. When the body
  of the endpoint's answer is JSON other than \<^verbatim>\<open>null\<close>, the error thrown has the message
  "DeepSeek API error: " followed by the error message of the endpoint when the body has
  a non-empty one, and by "Unknown error" otherwise. When the body is not JSON or is
  \<^verbatim>\<open>null\<close>, the error thrown is that of the parser or of the failed read.
\<close>

theorem upstream_error_single_attempt:
  assumes "json req = WellFormed b"
    and "fetch env (fetchRequest env (conversationHistory (context b) (message b)))
           = Fetched (NotOk answer)"
    and "method req \<noteq> ''OPTIONS''"
  shows "fst (try_block req env) =
           Inl (case answer of
                  JsonValue errorData \<Rightarrow>
                    ''DeepSeek API error: '' @
                    (case error_object errorData of
                       Some (ErrorObject (Some m)) \<Rightarrow> if m = [] then ''Unknown error'' else m
                     | _ \<Rightarrow> ''Unknown error'')
                | NotJson e \<Rightarrow> e
                | JsonNull \<Rightarrow> cannotRead ''null'' ''error'')
       \<and> status (response (serve req env)) = 500
       \<and> fetched (serve req env) =
           [fetchRequest env (conversationHistory (context b) (message b))]"
  using assms
  by (auto simp: serve_def try_block_def try_block_body_def Let_def or_else_def
      split: option.splits ErrorObject.splits JsonBody.splits)

theorem upstream_error_single_attempt_witness:
  "json sampleRequest = WellFormed \<lparr>message = ''hello'', context = initialMessages\<rparr>
   \<and> fetch failingEndpoint (fetchRequest failingEndpoint
        (conversationHistory initialMessages ''hello''))
       = Fetched (NotOk (JsonValue sampleErrorData))
   \<and> method sampleRequest \<noteq> ''OPTIONS''
   \<and> fst (try_block sampleRequest failingEndpoint) =
       Inl ''DeepSeek API error: Insufficient Balance''
   \<and> status (response (serve sampleRequest failingEndpoint)) = 500
   \<and> length (fetched (serve sampleRequest failingEndpoint)) = 1"
proof -
  have j: "json sampleRequest = WellFormed \<lparr>message = ''hello'', context = initialMessages\<rparr>"
    by (simp add: sampleRequest_def)
  have a: "fetch failingEndpoint (fetchRequest failingEndpoint
      (conversationHistory (context \<lparr>message = ''hello'', context = initialMessages\<rparr>)
         (message \<lparr>message = ''hello'', context = initialMessages\<rparr>)))
     = Fetched (NotOk (JsonValue sampleErrorData))"
    by (simp add: failingEndpoint_def)
  from upstream_error_single_attempt [OF j a sampleRequest_method] j a sampleRequest_method
  show ?thesis by (simp add: sampleErrorData_def)
qed

subsection \<open>The conversation is built without side effects\<close>

text \<open>The handler sends what \<open>conversationHistory\<close> builds, whatever its surroundings are.\<close>

lemma serve_sends_conversationHistory:
  assumes "json req = WellFormed b" and "method req \<noteq> ''OPTIONS''"
  shows "map body_messages (fetched (serve req env)) =
           [conversationHistory (context b) (message b)]"
  using assms
  by (auto simp: serve_def try_block_def try_block_body_def Let_def fetchRequest_def
      split: FetchOutcome.splits DeepseekResponse.splits JsonBody.splits list.splits
        option.splits)

lemma array_map_result:
  assumes "a < length s" and "s ! a = MessageArray H"
  shows "array_map s a =
           Some (length s,
                 s @ [EntryArray
                        (map (\<lambda>m. \<lparr>role = (if type m = ''user'' then ''user'' else ''assistant''),
                                   rc_content = content m\<rparr>) H)])"
  using assms by (simp add: array_map_def)

lemma conversationHistory_in_result:
  assumes "a < length s" and "s ! a = MessageArray H"
  shows "conversationHistory_in s a m =
           Some (length s, s @ [EntryArray (conversationHistory H m)])"
  unfolding conversationHistory_in_def array_map_result [OF assms]
  by (simp add: unshift_def push_def conversationHistory_def nth_append)

text \<open>
  Claim C8. Lines 46 to 61, run in any store that holds the history \<open>H\<close> at the address
  of \<^verbatim>\<open>context\<close>, build an array with the entries \<open>conversationHistory H m\<close>: the result
  is a function of the history and the message alone, so two runs on the same history and
  message (in stores \<open>s\<close> and \<open>s'\<close>, at addresses \<open>a\<close> and \<open>a'\<close>) build the same
  sequence. The run changes no array that existed before, the history included: the
  store afterwards is the store before with the new array at its end.
\<close>

theorem conversationHistory_pure:
  assumes "a < length s" and "s ! a = MessageArray H"
    and "a' < length s'" and "s' ! a' = MessageArray H"
  shows "built (conversationHistory_in s a m) = Some (conversationHistory H m)
       \<and> built (conversationHistory_in s a m) = built (conversationHistory_in s' a' m)
       \<and> kept s (conversationHistory_in s a m) = Some s
       \<and> map_option (\<lambda>(h, t). length t) (conversationHistory_in s a m) = Some (Suc (length s))"
  by (simp add: conversationHistory_in_result [OF assms(1,2)]
      conversationHistory_in_result [OF assms(3,4)] built_def kept_def)

theorem conversationHistory_pure_witness:
  "1 < length sampleStore \<and> sampleStore ! 1 = MessageArray sampleHistory
   \<and> 0 < length [MessageArray sampleHistory] \<and> [MessageArray sampleHistory] ! 0 = MessageArray sampleHistory
   \<and> built (conversationHistory_in sampleStore 1 ''hello'') =
       Some (conversationHistory sampleHistory ''hello'')
   \<and> built (conversationHistory_in sampleStore 1 ''hello'') =
       built (conversationHistory_in [MessageArray sampleHistory] 0 ''hello'')
   \<and> kept sampleStore (conversationHistory_in sampleStore 1 ''hello'') = Some sampleStore"
proof -
  have a: "1 < length sampleStore" by (simp add: sampleStore_def)
  have b: "sampleStore ! 1 = MessageArray sampleHistory" by (simp add: sampleStore_def)
  have c: "0 < length [MessageArray sampleHistory]" by simp
  have d: "[MessageArray sampleHistory] ! 0 = MessageArray sampleHistory" by simp
  from conversationHistory_pure [OF a b c d, of "''hello''"] a b c d
  show ?thesis by blast
qed

section \<open>Properties of the widget\<close>

subsection \<open>The sample surroundings\<close>

lemma signedIn_simps:
  "getSession (signedIn senv) = SessionFound ''user-1''"
  "insert (signedIn senv) row = None"
  "invoke (signedIn senv) = invoke_chat senv"
  by (simp_all add: signedIn_def)

lemma parse_stringify_aiMessage:
  "parse_Message (stringify_Message (aiMessage msg reply)) = Some (aiMessage msg reply)"
  by (simp add: parse_Message_def stringify_Message_def aiMessage_def)

lemma failing_invoke:
  "error (invoke (signedIn failingEndpoint) request) =
     Some ''Edge Function returned a non-2xx status code''"
  by (simp add: signedIn_def invoke_chat_def serve_def try_block_def try_block_body_def Let_def failingEndpoint_def)

lemma answering_invoke:
  "invoke_chat answeringEndpoint request =
     \<lparr>data = Some (aiMessage (message request) ''Move to higher ground.''), error = None\<rparr>"
  by (simp add: invoke_chat_def serve_def try_block_def try_block_body_def Let_def answeringEndpoint_def
      parse_stringify_aiMessage)

lemma answering_turn_succeeds:
  "turn_succeeds (signedIn answeringEndpoint) captured userMessage
     (aiMessage userMessage ''Move to higher ground.'')"
  by (simp add: turn_succeeds_def signedIn_simps answering_invoke)

subsection \<open>Turns that stop early\<close>




text \<open>
  Claim C4. When the row of the user message has been written and the call of the chat
  function then answers with an error, the table holds its former rows followed by the
  row of the user message: no row of the bot is written and the row of the user is
  neither removed nor changed.
\<close>

theorem failed_call_keeps_user_row:
  assumes "getSession env = SessionFound uid"
    and "insert env \<lparr>row_content = userMessage, row_type = ''user'', user_id = Some uid\<rparr> = None"
    and "error (invoke env \<lparr>message = userMessage, context = slice_last5 captured\<rparr>) = Some e"
  shows "chat_messages (handleResponse captured st env userMessage) =
           chat_messages st @
             [\<lparr>row_content = userMessage, row_type = ''user'', user_id = Some uid\<rparr>]"
  using assms by (simp add: handleResponse_def finally_block_def catch_block_def Let_def)

theorem failed_call_keeps_user_row_witness:
  "getSession (signedIn failingEndpoint) = SessionFound ''user-1''
   \<and> insert (signedIn failingEndpoint)
        \<lparr>row_content = ''hello'', row_type = ''user'', user_id = Some ''user-1''\<rparr> = None
   \<and> error (invoke (signedIn failingEndpoint)
        \<lparr>message = ''hello'', context = slice_last5 initialMessages\<rparr>) =
       Some ''Edge Function returned a non-2xx status code''
   \<and> chat_messages (handleResponse initialMessages initialState (signedIn failingEndpoint) ''hello'')
       = [\<lparr>row_content = ''hello'', row_type = ''user'', user_id = Some ''user-1''\<rparr>]"
proof -
  note a = signedIn_simps(1) [of failingEndpoint]
  note b = signedIn_simps(2) [of failingEndpoint
      "\<lparr>row_content = ''hello'', row_type = ''user'', user_id = Some ''user-1''\<rparr>"]
  note c = failing_invoke [of "\<lparr>message = ''hello'', context = slice_last5 initialMessages\<rparr>"]
  from failed_call_keeps_user_row [OF a b c, of initialState] a b c
  show ?thesis by (simp add: initialState_def)
qed

subsection \<open>Sending from the input box\<close>

lemma trim_empty_iff: "trim s = [] \<longleftrightarrow> (\<forall>c\<in>set s. isWhiteSpace c)"
proof
  assume "trim s = []"
  then have "\<forall>c\<in>set (dropWhile isWhiteSpace s). isWhiteSpace c"
    by (simp add: trim_def)
  then have "dropWhile isWhiteSpace s = []"
    using hd_dropWhile [of isWhiteSpace s] by (cases "dropWhile isWhiteSpace s") auto
  then show "\<forall>c\<in>set s. isWhiteSpace c"
    by simp
next
  assume "\<forall>c\<in>set s. isWhiteSpace c"
  then have "dropWhile isWhiteSpace s = []" by simp
  then show "trim s = []" unfolding trim_def by (simp only: rev.simps dropWhile.simps)
qed

text \<open>
  Claim C10. When the input is empty or consists of white space only, or a request is
  in flight, \<^verbatim>\<open>handleSend\<close> leaves everything as it is: no notice, no row, no call, and
  the message log and the input are unchanged.
\<close>

theorem handleSend_ignored:
  "(\<forall>c\<in>set (input st). isWhiteSpace c) \<or> isLoading st \<Longrightarrow> handleSend autocorrect st env = st"
  by (auto simp: handleSend_def trim_empty_iff)

theorem handleSend_ignored_witness:
  "list_all isWhiteSpace (input (initialState\<lparr>input := ''   ''\<rparr>))
   \<and> handleSend sampleAutocorrect (initialState\<lparr>input := ''   ''\<rparr>) (signedIn answeringEndpoint)
       = initialState\<lparr>input := ''   ''\<rparr>
   \<and> isLoading (initialState\<lparr>input := ''flod risks'', isLoading := True\<rparr>)
   \<and> handleSend sampleAutocorrect (initialState\<lparr>input := ''flod risks'', isLoading := True\<rparr>)
         (signedIn answeringEndpoint)
       = initialState\<lparr>input := ''flod risks'', isLoading := True\<rparr>"
proof -
  have a: "\<forall>c\<in>set (input (initialState\<lparr>input := ''   ''\<rparr>)). isWhiteSpace c"
    by (simp add: isWhiteSpace_def)
  have b: "isLoading (initialState\<lparr>input := ''flod risks'', isLoading := True\<rparr>)"
    by simp
  from a have a': "list_all isWhiteSpace (input (initialState\<lparr>input := ''   ''\<rparr>))"
    by (simp only: list_all_iff)
  from handleSend_ignored [of "initialState\<lparr>input := ''   ''\<rparr>" sampleAutocorrect
         "signedIn answeringEndpoint"]
       handleSend_ignored [of "initialState\<lparr>input := ''flod risks'', isLoading := True\<rparr>"
         sampleAutocorrect "signedIn answeringEndpoint"]
       a a' b
  show ?thesis by blast
qed

subsection \<open>What is stored and shown\<close>

lemma try_block_body_Inr:
  assumes "try_block_body b env = (Inr ai, sent, out)"
  shows "\<exists>reply. ai = aiMessage (message b) reply"
  using assms
  by (auto simp: try_block_body_def Let_def
      split: FetchOutcome.splits DeepseekResponse.splits JsonBody.splits option.splits
        list.splits)

lemma invoke_chat_data_bot:
  assumes "data (invoke_chat senv request) = Some ai"
  shows "type ai = ''bot''"
proof -
  obtain r sent out where run: "try_block_body request senv = (r, sent, out)"
    by (cases "try_block_body request senv") auto
  show ?thesis
  proof (cases r)
    case (Inl e)
    with run assms show ?thesis
      by (simp add: invoke_chat_def serve_def try_block_def)
  next
    case (Inr made)
    with run obtain reply where made: "made = aiMessage (message request) reply"
      using try_block_body_Inr by blast
    with run Inr assms have "ai = aiMessage (message request) reply"
      by (simp add: invoke_chat_def serve_def try_block_def parse_stringify_aiMessage)
    then show ?thesis by (simp add: aiMessage_def)
  qed
qed

text \<open>Whatever path a turn takes, it appends to the log and to the table, by case analysis.\<close>

lemma handleResponse_appends:
  assumes "invoke env = invoke_chat senv"
  shows "\<exists>ms rs. messages (handleResponse captured st env userMessage) = messages st @ ms
           \<and> chat_messages (handleResponse captured st env userMessage) = chat_messages st @ rs
           \<and> (\<forall>m\<in>set ms. type m = ''user'' \<or> type m = ''bot'')
           \<and> (\<forall>r\<in>set rs. row_type r = ''user'' \<or> row_type r = ''bot'')"
proof (cases "getSession env")
  case (SessionFailed e)
  then show ?thesis
    by (simp add: handleResponse_def finally_block_def catch_block_def)
next
  case SessionMissing
  then show ?thesis
    by (simp add: handleResponse_def finally_block_def)
next
  case (SessionFound uid)
  let ?userRow = "\<lparr>row_content = userMessage, row_type = ''user'', user_id = Some uid\<rparr>"
  let ?request = "\<lparr>message = userMessage, context = slice_last5 captured\<rparr>"
  show ?thesis
  proof (cases "insert env ?userRow")
    case (Some e)
    with SessionFound show ?thesis
      by (simp add: handleResponse_def finally_block_def catch_block_def)
  next
    case None
    note written = this
    show ?thesis
    proof (cases "error (invoke env ?request)")
      case (Some e)
      with SessionFound written show ?thesis
        by (simp add: handleResponse_def finally_block_def catch_block_def Let_def)
    next
      case None
      note answered = this
      show ?thesis
      proof (cases "data (invoke env ?request)")
        case None
        with SessionFound written answered show ?thesis
          by (simp add: handleResponse_def finally_block_def catch_block_def Let_def)
      next
        case (Some ai)
        note given = this
        then have bot: "type ai = ''bot''"
          using assms invoke_chat_data_bot by simp
        show ?thesis
        proof (cases "insert env \<lparr>row_content = content ai, row_type = ''bot'', user_id = None\<rparr>")
          case None
          with SessionFound written answered given bot show ?thesis
            by (simp add: handleResponse_def finally_block_def Let_def)
        next
          case (Some e)
          with SessionFound written answered given show ?thesis
            by (simp add: handleResponse_def finally_block_def catch_block_def Let_def)
        qed
      qed
    qed
  qed
qed

lemma appends_user_or_bot_I:
  assumes "messages st' = messages st @ ms" and "chat_messages st' = chat_messages st @ rs"
    and "\<forall>m\<in>set ms. type m = ''user'' \<or> type m = ''bot''"
    and "\<forall>r\<in>set rs. row_type r = ''user'' \<or> row_type r = ''bot''"
  shows "appends_user_or_bot st st'"
  using assms by (simp add: appends_user_or_bot_def list_all_iff)

lemma handleResponse_user_or_bot:
  assumes "invoke env = invoke_chat senv"
    and "messages st0 = messages st @ pre"
    and "\<forall>m\<in>set pre. type m = ''user'' \<or> type m = ''bot''"
    and "chat_messages st0 = chat_messages st"
  shows "appends_user_or_bot st (handleResponse captured st0 env userMessage)"
proof -
  let ?st' = "handleResponse captured st0 env userMessage"
  from handleResponse_appends [OF assms(1), of captured st0 userMessage]
  obtain ms rs where
    a: "messages ?st' = messages st0 @ ms"
    and b: "chat_messages ?st' = chat_messages st0 @ rs"
    and c: "\<forall>m\<in>set ms. type m = ''user'' \<or> type m = ''bot''"
    and d: "\<forall>r\<in>set rs. row_type r = ''user'' \<or> row_type r = ''bot''"
    by blast
  from a assms(2) have a': "messages ?st' = messages st @ (pre @ ms)"
    by simp
  from b assms(4) have b': "chat_messages ?st' = chat_messages st @ rs"
    by simp
  from c assms(3) have c': "\<forall>m\<in>set (pre @ ms). type m = ''user'' \<or> type m = ''bot''"
    by auto
  show ?thesis by (rule appends_user_or_bot_I [OF a' b' c' d])
qed

lemma appends_user_or_bot_refl: "appends_user_or_bot st st"
  by (simp add: appends_user_or_bot_def)

text \<open>
  Claim C7. With the chat function behind \<^verbatim>\<open>functions.invoke\<close>, each handler of the
  widget only appends to the message log and to the table, and every entry and every row
  it appends is tagged \<^verbatim>\<open>user\<close> or \<^verbatim>\<open>bot\<close>. The system prompt occurs in the
  conversation assembled for a call, there exactly once (as its first entry), and nowhere
  in what is stored or shown.
\<close>

theorem stored_roles_user_or_bot:
  assumes "invoke env = invoke_chat senv"
  shows "appends_user_or_bot st (handleResponse captured st env userMessage)
       \<and> appends_user_or_bot st (handleOptionClick st env option)
       \<and> appends_user_or_bot st (handleSend autocorrect st env)
       \<and> filter (\<lambda>e. role e = ''system'') (conversationHistory H m) =
           [\<lparr>role = ''system'', rc_content = systemPrompt\<rparr>]"
proof -
  have r: "appends_user_or_bot st (handleResponse captured st env userMessage)"
    by (rule handleResponse_user_or_bot [OF assms, of _ _ "[]"]) simp_all
  have c: "appends_user_or_bot st (handleOptionClick st env option)"
    unfolding handleOptionClick_def
    by (rule handleResponse_user_or_bot
        [OF assms, of _ _ "[\<lparr>type = ''user'', content = option, options = None\<rparr>]"]) simp_all
  have s: "appends_user_or_bot st (handleSend autocorrect st env)"
  proof (cases "trim (input st) = [] \<or> isLoading st")
    case True
    then show ?thesis by (auto simp add: handleSend_def appends_user_or_bot_refl)
  next
    case False
    have "appends_user_or_bot st (handleResponse (messages st)
           ((if autocorrect (input st) \<noteq> input st
             then st\<lparr>toasts := toasts st @ [correctedToast]\<rparr> else st)\<lparr>input := []\<rparr>)
           env (autocorrect (input st)))"
      by (rule handleResponse_user_or_bot [OF assms, of _ _ "[]"]) simp_all
    with False show ?thesis by (simp add: handleSend_def Let_def)
  qed
  have h: "filter (\<lambda>e. role e = ''system'') (conversationHistory H m) =
           [\<lparr>role = ''system'', rc_content = systemPrompt\<rparr>]"
    by (simp add: conversationHistory_def filter_empty_conv)
  from r c s h show ?thesis by simp
qed

theorem stored_roles_user_or_bot_witness:
  "invoke (signedIn answeringEndpoint) = invoke_chat answeringEndpoint
   \<and> appends_user_or_bot initialState
        (handleOptionClick initialState (signedIn answeringEndpoint) ''Learn about flood risks'')
   \<and> chat_messages
        (handleOptionClick initialState (signedIn answeringEndpoint) ''Learn about flood risks'') =
       [\<lparr>row_content = ''Learn about flood risks'', row_type = ''user'', user_id = Some ''user-1''\<rparr>,
        \<lparr>row_content = ''Move to higher ground.'', row_type = ''bot'', user_id = None\<rparr>]"
proof -
  note a = signedIn_simps(3) [of answeringEndpoint]
  have rows: "chat_messages
        (handleOptionClick initialState (signedIn answeringEndpoint) ''Learn about flood risks'') =
       [\<lparr>row_content = ''Learn about flood risks'', row_type = ''user'', user_id = Some ''user-1''\<rparr>,
        \<lparr>row_content = ''Move to higher ground.'', row_type = ''bot'', user_id = None\<rparr>]"
    by (simp add: handleOptionClick_def handleResponse_def Let_def signedIn_simps answering_invoke
        finally_block_def initialState_def aiMessage_def)
  from stored_roles_user_or_bot [OF a, of initialState initialMessages "''hello''"
      "''Learn about flood risks''" sampleAutocorrect "[]" "''hello''"] a rows
  show ?thesis by blast
qed

subsection \<open>Quick replies and typed messages\<close>

text \<open>
  Claim C9. After a click on a quick-reply option whose turn succeeds, the message log
  holds the text of the option twice, followed by the answer of the bot: once appended by
  \<^verbatim>\<open>handleOptionClick\<close> and once by \<^verbatim>\<open>handleResponse\<close>. After a message sent from the
  input box whose turn succeeds, it holds the (corrected) text once, followed by the
  answer of the bot.
\<close>

theorem option_click_appends_twice:
  "(turn_succeeds env (messages st) option ai \<longrightarrow>
      messages (handleOptionClick st env option) =
        messages st @ [\<lparr>type = ''user'', content = option, options = None\<rparr>,
                       \<lparr>type = ''user'', content = option, options = None\<rparr>, ai])
   \<and> (trim (input st) \<noteq> [] \<and> \<not> isLoading st
        \<and> turn_succeeds env (messages st) (autocorrect (input st)) ai' \<longrightarrow>
      messages (handleSend autocorrect st env) =
        messages st @ [\<lparr>type = ''user'', content = autocorrect (input st), options = None\<rparr>, ai'])"
  by (auto simp: turn_succeeds_def handleOptionClick_def handleSend_def handleResponse_def
      finally_block_def Let_def split: SessionResult.splits)

theorem option_click_appends_twice_witness:
  "turn_succeeds (signedIn answeringEndpoint) (messages initialState) ''Learn about flood risks''
      (aiMessage ''Learn about flood risks'' ''Move to higher ground.'')
   \<and> messages (handleOptionClick initialState (signedIn answeringEndpoint) ''Learn about flood risks'') =
       messages initialState @
         [\<lparr>type = ''user'', content = ''Learn about flood risks'', options = None\<rparr>,
          \<lparr>type = ''user'', content = ''Learn about flood risks'', options = None\<rparr>,
          aiMessage ''Learn about flood risks'' ''Move to higher ground.'']
   \<and> trim (input (initialState\<lparr>input := ''flod risks''\<rparr>)) \<noteq> []
   \<and> \<not> isLoading (initialState\<lparr>input := ''flod risks''\<rparr>)
   \<and> turn_succeeds (signedIn answeringEndpoint) (messages (initialState\<lparr>input := ''flod risks''\<rparr>))
        (sampleAutocorrect (input (initialState\<lparr>input := ''flod risks''\<rparr>)))
        (aiMessage ''flood risks'' ''Move to higher ground.'')
   \<and> messages (handleSend sampleAutocorrect (initialState\<lparr>input := ''flod risks''\<rparr>)
        (signedIn answeringEndpoint)) =
       messages initialState @
         [\<lparr>type = ''user'', content = ''flood risks'', options = None\<rparr>,
          aiMessage ''flood risks'' ''Move to higher ground.'']"
proof -
  let ?st = "initialState\<lparr>input := ''flod risks''\<rparr>"
  have a: "turn_succeeds (signedIn answeringEndpoint) (messages initialState)
      ''Learn about flood risks'' (aiMessage ''Learn about flood risks'' ''Move to higher ground.'')"
    by (rule answering_turn_succeeds)
  have fixed: "sampleAutocorrect (input ?st) = ''flood risks''"
    by (simp add: sampleAutocorrect_def)
  have b: "trim (input ?st) \<noteq> []"
    by (simp add: trim_empty_iff isWhiteSpace_def)
  have c: "\<not> isLoading ?st" by (simp add: initialState_def)
  have d: "turn_succeeds (signedIn answeringEndpoint) (messages ?st) (sampleAutocorrect (input ?st))
        (aiMessage ''flood risks'' ''Move to higher ground.'')"
    unfolding fixed by (rule answering_turn_succeeds)
  note click = option_click_appends_twice [of "signedIn answeringEndpoint" initialState
      "''Learn about flood risks''" "aiMessage ''Learn about flood risks'' ''Move to higher ground.''"
      sampleAutocorrect "aiMessage ''flood risks'' ''Move to higher ground.''"]
  note send = option_click_appends_twice [of "signedIn answeringEndpoint" ?st
      "''Learn about flood risks''" "aiMessage ''Learn about flood risks'' ''Move to higher ground.''"
      sampleAutocorrect "aiMessage ''flood risks'' ''Move to higher ground.''"]
  from click a have e: "messages (handleOptionClick initialState (signedIn answeringEndpoint)
        ''Learn about flood risks'') =
       messages initialState @
         [\<lparr>type = ''user'', content = ''Learn about flood risks'', options = None\<rparr>,
          \<lparr>type = ''user'', content = ''Learn about flood risks'', options = None\<rparr>,
          aiMessage ''Learn about flood risks'' ''Move to higher ground.'']"
    by blast
  from send b c d have "messages (handleSend sampleAutocorrect ?st (signedIn answeringEndpoint)) =
       messages ?st @
         [\<lparr>type = ''user'', content = sampleAutocorrect (input ?st), options = None\<rparr>,
          aiMessage ''flood risks'' ''Move to higher ground.'']"
    by blast
  then have f: "messages (handleSend sampleAutocorrect ?st (signedIn answeringEndpoint)) =
       messages initialState @
         [\<lparr>type = ''user'', content = ''flood risks'', options = None\<rparr>,
          aiMessage ''flood risks'' ''Move to higher ground.'']"
    by (simp add: sampleAutocorrect_def)
  from a e b c d f show ?thesis by blast
qed

end
